theory Spec2Isabelle
  imports
    Complex_Main
    "HOL-Library.Char_ord"
    "HOL-Library.List_Lexorder"
    "HOL-Library.Product_Lexorder"
begin

section \<open>The COVID-19 application: data model\<close>

text \<open>
  The repository holds two variants of one script, \<^verbatim>\<open>app-20241118-a.py\<close> and
  \<^verbatim>\<open>app-20241118-b.py\<close>. Each loads a table of case records and a table of country
  polygons, filters the records, projects and renames five columns, parses the dates,
  aggregates by date (sum) and by country (max), left-joins the polygons with the
  per-country aggregate, fills the missing values with zero and colours every polygon.

  A data frame is modelled as the list of its rows, in row order. A string column holds
  \<^typ>\<open>string\<close>s, compared as Python compares \<^verbatim>\<open>str\<close> values: lexicographically by
  character code (the order of the library theory \<^verbatim>\<open>Char_ord\<close> lifted to lists by
  \<^verbatim>\<open>List_Lexorder\<close>). A numeric column holds \<^typ>\<open>real option\<close>, where
  \<^term>\<open>None\<close> is the missing value (NaN); the numbers are exact, which float64 is on case
  counts (integers far below \<open>2^53\<close>). In the records of the
  pipeline the columns \<^verbatim>\<open>iso_code\<close>, \<^verbatim>\<open>date\<close> and \<^verbatim>\<open>ADM0_ISO\<close> hold a string in
  every row; the filter of variant b is modelled a second time on the table as it is
  read, where a field of any column may be missing and the filter may raise.
\<close>

datatype error = ValueError | ZeroDivisionError | IndexError | TypeError | AttributeError

text \<open>A row of the case table as loaded (\<^verbatim>\<open>cargar_datos_covid\<close>); the columns the
  scripts never read are kept as name/value pairs.\<close>

record registro =
  iso_code :: string
  location :: string
  date :: string
  total_cases :: "real option"
  total_deaths :: "real option"
  otras_columnas :: "(string \<times> string) list"

text \<open>A row of the projected and renamed table (\<^verbatim>\<open>Codigo ISO\<close>, \<^verbatim>\<open>Pais\<close>,
  \<^verbatim>\<open>Fecha\<close>, \<^verbatim>\<open>Casos totales\<close>, \<^verbatim>\<open>Muertes totales\<close>). The type of the date column
  is a parameter: a string before \<^verbatim>\<open>pd.to_datetime\<close>, a calendar date after it.\<close>

record 'f fila =
  codigo_iso :: string
  pais :: string
  fecha :: 'f
  casos_totales :: "real option"
  muertes_totales :: "real option"

text \<open>A calendar date (year, month, day); the lexicographic order on the triple is the
  chronological order that Python's \<^verbatim>\<open>datetime.date\<close> has.\<close>

type_synonym fecha_t = "nat \<times> nat \<times> nat"

text \<open>A row of the polygon table (\<^verbatim>\<open>cargar_datos_paises\<close>); the geometry is opaque.\<close>

record 'g poligono =
  ADM0_ISO :: string
  geometry :: 'g

text \<open>A row of the merged table: the polygon's columns, then the aggregate's columns,
  whose value column has type \<^typ>\<open>real option\<close> before \<^verbatim>\<open>fillna\<close> and \<^typ>\<open>real\<close>
  after it.\<close>

record ('g, 'v) unido =
  u_ADM0_ISO :: string
  u_geometry :: 'g
  u_codigo_iso :: "string option"
  u_casos_totales :: 'v


section \<open>Initial filtering\<close>

definition FECHA_MAXIMA :: string where
  "FECHA_MAXIMA = ''2024-08-04''"

definition FECHA_MAXIMA_DATOS_COVID :: string where
  "FECHA_MAXIMA_DATOS_COVID = ''2024-08-04''"

text \<open>\<^verbatim>\<open>df[mask]\<close>: the rows of \<open>df\<close> at which the boolean series \<open>mask\<close> is true, in
  row order.\<close>

definition seleccionar :: "bool list \<Rightarrow> 'a list \<Rightarrow> 'a list" where
  "seleccionar mascara filas = map fst (filter snd (zip filas mascara))"

text \<open>\<^verbatim>\<open>s.startswith(p)\<close>.\<close>

definition startswith :: "string \<Rightarrow> string \<Rightarrow> bool" where
  "startswith s p \<longleftrightarrow> take (length p) s = p"

text \<open>\<^verbatim>\<open>datos[datos['date'] <= fecha_maxima]\<close>: a comparison of strings.\<close>

definition filtrar_fecha :: "string \<Rightarrow> registro list \<Rightarrow> registro list" where
  "filtrar_fecha fecha_maxima datos =
     seleccionar (map (\<lambda>r. date r \<le> fecha_maxima) datos) datos"

text \<open>\<^verbatim>\<open>datos[~datos['iso_code'].str.startswith('OWID')]\<close>.\<close>

definition excluir_owid :: "registro list \<Rightarrow> registro list" where
  "excluir_owid datos =
     seleccionar (map (\<lambda>r. \<not> startswith (iso_code r) ''OWID'') datos) datos"

text \<open>Variant a, line 56: the date bound only.\<close>

definition filtrado_a :: "registro list \<Rightarrow> registro list" where
  "filtrado_a datos = filtrar_fecha FECHA_MAXIMA datos"

text \<open>Variant b, lines 68 and 72: the date bound, then the exclusion of the region codes.\<close>

definition filtrado_b :: "registro list \<Rightarrow> registro list" where
  "filtrado_b datos = excluir_owid (filtrar_fecha FECHA_MAXIMA_DATOS_COVID datos)"



section \<open>The filter on the table as it is read\<close>

text \<open>
  \<^verbatim>\<open>pd.read_csv\<close> reads an empty field as the missing value, in every column. A row
  of the table as read has therefore an optional value in each of the five columns. A
  column in which at least one field is a string has the dtype \<^verbatim>\<open>object\<close>; a column of
  a table with rows all of whose fields are missing has the dtype \<^verbatim>\<open>float64\<close>. A table
  without rows has columns of dtype \<^verbatim>\<open>object\<close>.
\<close>

record fila_csv =
  csv_iso_code :: "string option"
  csv_location :: "string option"
  csv_date :: "string option"
  csv_total_cases :: "real option"
  csv_total_deaths :: "real option"
  csv_otras_columnas :: "(string \<times> string) list"

text \<open>The row as read of a record whose strings are all present.\<close>

definition como_leido :: "registro \<Rightarrow> fila_csv" where
  "como_leido r =
     \<lparr>csv_iso_code = Some (iso_code r), csv_location = Some (location r),
      csv_date = Some (date r), csv_total_cases = total_cases r,
      csv_total_deaths = total_deaths r, csv_otras_columnas = otras_columnas r\<rparr>"

definition columna_float :: "'a option list \<Rightarrow> bool" where
  "columna_float columna \<longleftrightarrow> columna \<noteq> [] \<and> list_all (\<lambda>v. v = None) columna"

text \<open>\<^verbatim>\<open>columna <= cadena\<close>: the comparison of a column of numbers with a string raises
  \<^verbatim>\<open>TypeError\<close>; in a column of dtype \<^verbatim>\<open>object\<close> a missing value compares false and a
  string is compared as a string.\<close>

definition le_cadena :: "string option list \<Rightarrow> string \<Rightarrow> error + bool list" where
  "le_cadena columna cadena =
     (if columna_float columna then Inl TypeError
      else Inr (map (\<lambda>v. case v of None \<Rightarrow> False | Some s \<Rightarrow> s \<le> cadena) columna))"

text \<open>\<^verbatim>\<open>columna.str.startswith(p)\<close> on a column of dtype \<^verbatim>\<open>object\<close>: a missing value
  stays missing.\<close>

definition str_startswith :: "string option list \<Rightarrow> string \<Rightarrow> bool option list" where
  "str_startswith columna p = map (map_option (\<lambda>s. startswith s p)) columna"

text \<open>The operator \<^verbatim>\<open>~\<close> on the result: it negates the booleans, and raises
  \<^verbatim>\<open>TypeError\<close> on a missing value (a float).\<close>

fun invertir :: "bool option list \<Rightarrow> error + bool list" where
  "invertir [] = Inr []"
| "invertir (None # bs) = Inl TypeError"
| "invertir (Some b # bs) =
     (case invertir bs of Inl e \<Rightarrow> Inl e | Inr ms \<Rightarrow> Inr ((\<not> b) # ms))"

text \<open>Lines 68 and 72 of variant b on the table as read, with the bound as an argument.
  Line 68 raises when the date column holds numbers. In line 72 the accessor
  \<^verbatim>\<open>.str\<close> raises \<^verbatim>\<open>AttributeError\<close> when the code column holds numbers (the dtype is
  the one of the table as read, which the selection of line 68 keeps), and \<^verbatim>\<open>~\<close> raises
  on a row that is left with a missing code. No statement parses the bound.\<close>

definition filtro_temporal :: "string \<Rightarrow> fila_csv list \<Rightarrow> error + fila_csv list" where
  "filtro_temporal fecha_maxima datos =
     (case le_cadena (map csv_date datos) fecha_maxima of
        Inl e \<Rightarrow> Inl e
      | Inr mascara \<Rightarrow>
          (let datos_1 = seleccionar mascara datos
           in if columna_float (map csv_iso_code datos) then Inl AttributeError
              else (case invertir (str_startswith (map csv_iso_code datos_1) ''OWID'') of
                      Inl e \<Rightarrow> Inl e
                    | Inr mascara_2 \<Rightarrow> Inr (seleccionar mascara_2 datos_1))))"


section \<open>Dates\<close>

text \<open>
  Line 98 of variant b (82 of variant a) parses the date column with
  \<^verbatim>\<open>pd.to_datetime(...).dt.date\<close>. The parser belongs to pandas, not to this repository.
  It is modelled on the dates the input schema declares, year-month-day separated by
  hyphens: a four-digit year, a month and a day of one or two digits each, forming a date
  of the calendar. Any other string raises \<^verbatim>\<open>ValueError\<close> in the model.
\<close>

definition digito :: "char \<Rightarrow> bool" where
  "digito c \<longleftrightarrow> CHR ''0'' \<le> c \<and> c \<le> CHR ''9''"

definition valor_digito :: "char \<Rightarrow> nat" where
  "valor_digito c = of_char c - 48"

fun numero_desde :: "nat \<Rightarrow> string \<Rightarrow> nat" where
  "numero_desde n [] = n"
| "numero_desde n (c # cs) = numero_desde (10 * n + valor_digito c) cs"

definition numero :: "string \<Rightarrow> nat" where
  "numero s = numero_desde 0 s"

text \<open>\<^verbatim>\<open>s.split(c)\<close>.\<close>

fun dividir :: "char \<Rightarrow> string \<Rightarrow> string list" where
  "dividir c [] = [[]]"
| "dividir c (x # xs) =
     (if x = c then [] # dividir c xs
      else (case dividir c xs of [] \<Rightarrow> [[x]] | p # ps \<Rightarrow> (x # p) # ps))"

definition bisiesto :: "nat \<Rightarrow> bool" where
  "bisiesto y \<longleftrightarrow> y mod 4 = 0 \<and> (y mod 100 \<noteq> 0 \<or> y mod 400 = 0)"

definition dias_del_mes :: "nat \<Rightarrow> nat \<Rightarrow> nat" where
  "dias_del_mes y m =
     (if m = 2 then (if bisiesto y then 29 else 28)
      else if m = 4 \<or> m = 6 \<or> m = 9 \<or> m = 11 then 30 else 31)"

definition analizar_fecha :: "string \<Rightarrow> error + fecha_t" where
  "analizar_fecha s =
     (case dividir (CHR ''-'') s of
        [a, m, d] \<Rightarrow>
          if length a = 4 \<and> (length m = 1 \<or> length m = 2) \<and> (length d = 1 \<or> length d = 2)
             \<and> list_all digito a \<and> list_all digito m \<and> list_all digito d
             \<and> 1 \<le> numero m \<and> numero m \<le> 12
             \<and> 1 \<le> numero d \<and> numero d \<le> dias_del_mes (numero a) (numero m)
          then Inr (numero a, numero m, numero d)
          else Inl ValueError
      | _ \<Rightarrow> Inl ValueError)"

text \<open>The zero-padded form \<^verbatim>\<open>YYYY-MM-DD\<close>, and the year, month and day it spells.\<close>

definition formato_iso :: "string \<Rightarrow> bool" where
  "formato_iso s \<longleftrightarrow>
     length s = 10 \<and> list_all digito (take 4 s) \<and> s ! 4 = CHR ''-''
     \<and> list_all digito (take 2 (drop 5 s)) \<and> s ! 7 = CHR ''-''
     \<and> list_all digito (drop 8 s)"

definition componentes :: "string \<Rightarrow> fecha_t" where
  "componentes s = (numero (take 4 s), numero (take 2 (drop 5 s)), numero (drop 8 s))"


section \<open>The table, and the two aggregations\<close>



text \<open>\<^verbatim>\<open>datos.groupby(clave)[columna]\<close>: the groups in the ascending order of their keys
  (pandas sorts the group keys), each with the column's values in row order.\<close>

definition groupby :: "('r \<Rightarrow> 'k::linorder) \<Rightarrow> ('r \<Rightarrow> 'v) \<Rightarrow> 'r list \<Rightarrow> ('k \<times> 'v list) list" where
  "groupby clave columna filas =
     map (\<lambda>k. (k, map columna (filter (\<lambda>r. clave r = k) filas)))
       (sort (remdups (map clave filas)))"

text \<open>The reductions of pandas skip the missing values: \<^verbatim>\<open>sum\<close> of a group without
  any number is 0, \<^verbatim>\<open>max\<close> of such a group is missing.\<close>

definition presentes :: "real option list \<Rightarrow> real list" where
  "presentes vs = List.map_filter (\<lambda>v. v) vs"

definition sum_skipna :: "real option list \<Rightarrow> real" where
  "sum_skipna vs = sum_list (presentes vs)"

definition max_skipna :: "real option list \<Rightarrow> real option" where
  "max_skipna vs = (case presentes vs of [] \<Rightarrow> None | x # xs \<Rightarrow> Some (fold max xs x))"

text \<open>\<^verbatim>\<open>datos.groupby('Fecha')['Casos totales'].sum().reset_index()\<close>.\<close>

definition casos_totales_por_fecha :: "fecha_t fila list \<Rightarrow> (fecha_t \<times> real) list" where
  "casos_totales_por_fecha datos =
     map (\<lambda>(k, vs). (k, sum_skipna vs)) (groupby fecha casos_totales datos)"

text \<open>\<^verbatim>\<open>datos.groupby('Codigo ISO')['Casos totales'].max().reset_index()\<close>.\<close>

definition casos_totales_por_pais :: "'f fila list \<Rightarrow> (string \<times> real option) list" where
  "casos_totales_por_pais datos =
     map (\<lambda>(k, vs). (k, max_skipna vs)) (groupby codigo_iso casos_totales datos)"

text \<open>The table without the rows whose case count is missing: what
  \<^verbatim>\<open>datos.dropna(subset=['Casos totales'])\<close> would give. The scripts never compute it; the
  statement on missing values compares the aggregations with the ones of this table.\<close>

definition sin_faltantes :: "'f fila list \<Rightarrow> 'f fila list" where
  "sin_faltantes datos = filter (\<lambda>r. casos_totales r \<noteq> None) datos"


section \<open>The join of the polygons with the aggregate by country\<close>

text \<open>\<^verbatim>\<open>paises.merge(casos_totales_por_pais, how='left', left_on='ADM0_ISO',
  right_on='Codigo ISO')\<close>: the rows of the left table in their order; a left row without
  a match is kept once, with missing values in the right columns; a left row with matches
  is repeated once for each matching right row, in the order of the right table.\<close>

definition merge_left ::
  "'g poligono list \<Rightarrow> (string \<times> real option) list \<Rightarrow> ('g, real option) unido list" where
  "merge_left izquierda derecha =
     concat (map (\<lambda>p.
       case filter (\<lambda>fila. fst fila = ADM0_ISO p) derecha of
         [] \<Rightarrow>
           [\<lparr>u_ADM0_ISO = ADM0_ISO p, u_geometry = geometry p,
             u_codigo_iso = None, u_casos_totales = None\<rparr>]
       | coincidencias \<Rightarrow>
           map (\<lambda>fila.
             \<lparr>u_ADM0_ISO = ADM0_ISO p, u_geometry = geometry p,
              u_codigo_iso = Some (fst fila), u_casos_totales = snd fila\<rparr>) coincidencias)
       izquierda)"

text \<open>\<^verbatim>\<open>paises['Casos totales'].fillna(valor)\<close>, written back to the column.\<close>

definition fillna :: "real \<Rightarrow> ('g, real option) unido list \<Rightarrow> ('g, real) unido list" where
  "fillna valor filas =
     map (\<lambda>u.
       \<lparr>u_ADM0_ISO = u_ADM0_ISO u, u_geometry = u_geometry u, u_codigo_iso = u_codigo_iso u,
        u_casos_totales = (case u_casos_totales u of None \<Rightarrow> valor | Some x \<Rightarrow> x)\<rparr>) filas"

text \<open>Lines 146 to 154 of variant b (130 to 138 of variant a).\<close>

definition paises_unidos ::
  "'g poligono list \<Rightarrow> (string \<times> real option) list \<Rightarrow> ('g, real) unido list" where
  "paises_unidos paises por_pais = fillna 0 (merge_left paises por_pais)"


section \<open>The colour scale\<close>

text \<open>
  \<^verbatim>\<open>linear.YlOrRd_09.scale(min, max)\<close> and the call of the resulting colour map belong to
  the library branca, not to this repository. They are modelled after the library's
  \<^verbatim>\<open>LinearColormap\<close>: a list of colours, the list \<^verbatim>\<open>index\<close> of the values at which
  they stand, and the two ends of the domain. A colour is a tuple of four numbers
  between 0 and 1 (\<^verbatim>\<open>rgba_floats_tuple\<close>); the string the call returns is a formatting
  of that tuple. A division by zero is an error of the model wherever one is written in
  the library.
\<close>

type_synonym rgba = "real \<times> real \<times> real \<times> real"

record colormap =
  colors :: "rgba list"
  index :: "real list"
  vmin :: real
  vmax :: real

text \<open>A colour given by its three bytes, opaque.\<close>

definition hex :: "nat \<Rightarrow> nat \<Rightarrow> nat \<Rightarrow> rgba" where
  "hex r g b = (real r / 255, real g / 255, real b / 255, 1)"

text \<open>The nine colours of the palette, at equal steps over the domain from 0 to 1.\<close>

definition YlOrRd_09 :: colormap where
  "YlOrRd_09 =
     \<lparr>colors =
        [hex 255 255 204, hex 255 237 160, hex 254 217 118, hex 254 178 76, hex 253 141 60,
         hex 252 78 42, hex 227 26 28, hex 189 0 38, hex 128 0 38],
      index = map (\<lambda>i. 0 + (1 - 0) * real i * 1 / (9 - 1)) [0..<9],
      vmin = 0, vmax = 1\<rparr>"

text \<open>\<^verbatim>\<open>scale\<close>: the same colours, the index carried linearly to the new domain. The
  divisor is the width of the old domain.\<close>

definition scale :: "colormap \<Rightarrow> real \<Rightarrow> real \<Rightarrow> error + colormap" where
  "scale cm nuevo_vmin nuevo_vmax =
     (if index cm \<noteq> [] \<and> vmax cm - vmin cm = 0 then Inl ZeroDivisionError
      else Inr
        \<lparr>colors = colors cm,
         index = map (\<lambda>x. nuevo_vmin + (nuevo_vmax - nuevo_vmin) * (x - vmin cm) * 1
                            / (vmax cm - vmin cm)) (index cm),
         vmin = nuevo_vmin, vmax = nuevo_vmax\<rparr>)"

text \<open>The linear interpolation between two colours, component by component.\<close>

definition mezclar :: "real \<Rightarrow> rgba \<Rightarrow> rgba \<Rightarrow> rgba" where
  "mezclar luminosity u v =
     (case (u, v) of ((r1, g1, b1, a1), (r2, g2, b2, a2)) \<Rightarrow>
        ((1 - luminosity) * r1 + luminosity * r2, (1 - luminosity) * g1 + luminosity * g2,
         (1 - luminosity) * b1 + luminosity * b2, (1 - luminosity) * a1 + luminosity * a2))"

text \<open>\<^verbatim>\<open>rgba_floats_tuple\<close>: a value at or below the first index gets the first colour,
  a value at or above the last index the last colour; only between them does the
  function divide, by the distance of the two neighbouring index values.\<close>

definition rgba_floats_tuple :: "colormap \<Rightarrow> real \<Rightarrow> error + rgba" where
  "rgba_floats_tuple cm x =
     (if index cm = [] then Inl IndexError
      else if x \<le> index cm ! 0 then
        (if colors cm = [] then Inl IndexError else Inr (colors cm ! 0))
      else if x \<ge> last (index cm) then
        (if colors cm = [] then Inl IndexError else Inr (last (colors cm)))
      else
        (let i = length (filter (\<lambda>u. u < x) (index cm)) in
         if index cm ! i - index cm ! (i - 1) = 0 then Inl ZeroDivisionError
         else if length (colors cm) \<le> i then Inl IndexError
         else Inr (mezclar ((x - index cm ! (i - 1)) / (index cm ! i - index cm ! (i - 1)))
                    (colors cm ! (i - 1)) (colors cm ! i))))"

text \<open>\<^verbatim>\<open>Series.min()\<close> and \<^verbatim>\<open>Series.max()\<close> of a column without missing values; they are
  used on a column with at least one row only.\<close>

definition serie_min :: "real list \<Rightarrow> real" where
  "serie_min vs = fold min (tl vs) (hd vs)"

definition serie_max :: "real list \<Rightarrow> real" where
  "serie_max vs = fold max (tl vs) (hd vs)"

text \<open>The style function, applied to every feature; the first error ends the run.\<close>

fun colorear :: "colormap \<Rightarrow> ('g, real) unido list \<Rightarrow> error + (('g, real) unido \<times> rgba) list" where
  "colorear cm [] = Inr []"
| "colorear cm (u # us) =
     (case rgba_floats_tuple cm (u_casos_totales u) of
        Inl e \<Rightarrow> Inl e
      | Inr c \<Rightarrow> (case colorear cm us of Inl e \<Rightarrow> Inl e | Inr cs \<Rightarrow> Inr ((u, c) # cs)))"

text \<open>Lines 146 to 183 of variant b (130 to 167 of variant a): the joined table and the
  colour of each of its rows. A polygon table without rows has nothing to colour.\<close>

definition coropleta ::
  "'g poligono list \<Rightarrow> (string \<times> real option) list \<Rightarrow> error + (('g, real) unido \<times> rgba) list" where
  "coropleta paises por_pais =
     (let unidos = paises_unidos paises por_pais;
          valores = map u_casos_totales unidos
      in if valores = [] then Inr []
         else (case scale YlOrRd_09 (serie_min valores) (serie_max valores) of
                 Inl e \<Rightarrow> Inl e
               | Inr paleta_colores \<Rightarrow> colorear paleta_colores unidos))"


section \<open>The two scripts\<close>






section \<open>Example data\<close>

text \<open>A record with the given country code, date and case count, and a small table: a
  country before the bound, a region code, a country after the bound, and a country on
  the bound whose case count is missing.\<close>

definition ejemplo :: "string \<Rightarrow> string \<Rightarrow> real option \<Rightarrow> registro" where
  "ejemplo codigo dia casos =
     \<lparr>iso_code = codigo, location = codigo, date = dia, total_cases = casos,
      total_deaths = None, otras_columnas = []\<rparr>"

definition datos_ejemplo :: "registro list" where
  "datos_ejemplo =
     [ejemplo ''USA'' ''2024-01-01'' (Some 100),
      ejemplo ''OWID_WRL'' ''2024-01-01'' (Some 150),
      ejemplo ''CAN'' ''2024-08-05'' (Some 60),
      ejemplo ''CAN'' ''2024-08-04'' None]"

text \<open>A row as read, with an optional code and an optional date.\<close>

definition leido :: "string option \<Rightarrow> string option \<Rightarrow> fila_csv" where
  "leido codigo dia =
     \<lparr>csv_iso_code = codigo, csv_location = codigo, csv_date = dia, csv_total_cases = None,
      csv_total_deaths = None, csv_otras_columnas = []\<rparr>"

text \<open>A parsed table: two countries on two days, one of them with a missing count on the
  second day, and a territory whose only count is missing.\<close>

definition tabla_ejemplo :: "fecha_t fila list" where
  "tabla_ejemplo =
     [\<lparr>codigo_iso = ''USA'', pais = ''United States'', fecha = (2024, 1, 1),
        casos_totales = Some 100, muertes_totales = None\<rparr>,
      \<lparr>codigo_iso = ''USA'', pais = ''United States'', fecha = (2024, 1, 2),
        casos_totales = Some 150, muertes_totales = None\<rparr>,
      \<lparr>codigo_iso = ''CAN'', pais = ''Canada'', fecha = (2024, 1, 1),
        casos_totales = Some 50, muertes_totales = None\<rparr>,
      \<lparr>codigo_iso = ''CAN'', pais = ''Canada'', fecha = (2024, 1, 2),
        casos_totales = None, muertes_totales = None\<rparr>,
      \<lparr>codigo_iso = ''ATA'', pais = ''Antarctica'', fecha = (2024, 1, 3),
        casos_totales = None, muertes_totales = None\<rparr>]"

text \<open>Three polygons; the third has no record in the example tables.\<close>

definition poligonos_ejemplo :: "string poligono list" where
  "poligonos_ejemplo =
     [\<lparr>ADM0_ISO = ''USA'', geometry = ''g1''\<rparr>, \<lparr>ADM0_ISO = ''CAN'', geometry = ''g2''\<rparr>,
      \<lparr>ADM0_ISO = ''MEX'', geometry = ''g3''\<rparr>]"


section \<open>Properties of the filter\<close>

lemma seleccionar_map: "seleccionar (map p xs) xs = filter p xs"
  unfolding seleccionar_def by (induction xs) auto

lemma filtrar_fecha_filter:
  "filtrar_fecha m datos = filter (\<lambda>r. date r \<le> m) datos"
  unfolding filtrar_fecha_def by (rule seleccionar_map)

lemma excluir_owid_filter:
  "excluir_owid datos = filter (\<lambda>r. \<not> startswith (iso_code r) ''OWID'') datos"
  unfolding excluir_owid_def by (rule seleccionar_map)


section \<open>String order and calendar order\<close>

lemma numero_desde_eq: "numero_desde n cs = n * 10 ^ length cs + numero_desde 0 cs"
proof (induction cs arbitrary: n)
  case Nil
  show ?case by simp
next
  case (Cons c cs)
  have "numero_desde n (c # cs) = (10 * n + valor_digito c) * 10 ^ length cs + numero_desde 0 cs"
    using Cons.IH [of "10 * n + valor_digito c"] by simp
  moreover have "numero_desde 0 (c # cs) = valor_digito c * 10 ^ length cs + numero_desde 0 cs"
    using Cons.IH [of "valor_digito c"] by simp
  ultimately show ?case by (simp add: algebra_simps)
qed

lemma numero_Cons: "numero (c # cs) = valor_digito c * 10 ^ length cs + numero cs"
  using numero_desde_eq [of "valor_digito c" cs] by (simp add: numero_def)

lemma valor_digito_le: "digito c \<Longrightarrow> valor_digito c \<le> 9"
  unfolding digito_def valor_digito_def less_eq_char_def by simp arith

lemma numero_lt: "list_all digito cs \<Longrightarrow> numero cs < 10 ^ length cs"
proof (induction cs)
  case Nil
  show ?case by (simp add: numero_def)
next
  case (Cons c cs)
  then have "valor_digito c \<le> 9" "numero cs < 10 ^ length cs"
    by (simp_all add: valor_digito_le)
  then have "valor_digito c * 10 ^ length cs + numero cs < 9 * 10 ^ length cs + 10 ^ length cs"
    by (meson add_le_less_mono mult_le_mono1)
  then show ?case by (simp add: numero_Cons)
qed

lemma digito_less: "digito a \<Longrightarrow> digito b \<Longrightarrow> a < b \<longleftrightarrow> valor_digito a < valor_digito b"
  by (auto simp add: digito_def valor_digito_def less_eq_char_def less_char_def)

lemma digito_eq: "digito a \<Longrightarrow> digito b \<Longrightarrow> a = b \<longleftrightarrow> valor_digito a = valor_digito b"
proof -
  assume "digito a" "digito b"
  then have "48 \<le> (of_char a :: nat)" "48 \<le> (of_char b :: nat)"
    by (simp_all add: digito_def less_eq_char_def)
  then have "valor_digito a = valor_digito b \<longleftrightarrow> (of_char a :: nat) = of_char b"
    unfolding valor_digito_def by arith
  then show ?thesis by simp
qed

lemma numero_orden:
  "length xs = length ys \<Longrightarrow> list_all digito xs \<Longrightarrow> list_all digito ys \<Longrightarrow>
     (xs < ys \<longleftrightarrow> numero xs < numero ys) \<and> (xs = ys \<longleftrightarrow> numero xs = numero ys)"
proof (induction xs ys rule: list_induct2)
  case Nil
  show ?case by (simp add: numero_def)
next
  case (Cons x xs y ys)
  then have dx: "digito x" and dy: "digito y"
    and IH: "xs < ys \<longleftrightarrow> numero xs < numero ys" "xs = ys \<longleftrightarrow> numero xs = numero ys"
    and bx: "numero xs < 10 ^ length xs" and by': "numero ys < 10 ^ length xs"
    using numero_lt [of xs] numero_lt [of ys] by simp_all
  let ?p = "(10::nat) ^ length xs"
  consider "valor_digito x < valor_digito y" | "valor_digito x = valor_digito y"
    | "valor_digito y < valor_digito x" by linarith
  then show ?case
  proof cases
    case 1
    then have "valor_digito x + 1 \<le> valor_digito y" by simp
    then have "(valor_digito x + 1) * ?p \<le> valor_digito y * ?p"
      by (rule mult_le_mono1)
    with bx have "valor_digito x * ?p + numero xs < valor_digito y * ?p + numero ys"
      by (simp add: algebra_simps)
    with 1 show ?thesis
      using digito_less [OF dx dy] digito_eq [OF dx dy] Cons.hyps
      by (simp add: numero_Cons)
  next
    case 2
    then show ?thesis
      using digito_less [OF dx dy] digito_eq [OF dx dy] IH Cons.hyps
      by (simp add: numero_Cons)
  next
    case 3
    then have "valor_digito y + 1 \<le> valor_digito x" by simp
    then have "(valor_digito y + 1) * ?p \<le> valor_digito x * ?p"
      by (rule mult_le_mono1)
    with by' have "valor_digito y * ?p + numero ys < valor_digito x * ?p + numero xs"
      by (simp add: algebra_simps)
    with 3 show ?thesis
      using digito_less [OF dx dy] digito_eq [OF dx dy] digito_less [OF dy dx] Cons.hyps
      by (auto simp add: numero_Cons)
  qed
qed

lemma append_le_append:
  fixes a b :: string
  shows "length a = length b \<Longrightarrow> a @ u \<le> b @ v \<longleftrightarrow> a < b \<or> a = b \<and> u \<le> v"
  by (induction a b rule: list_induct2) auto

lemma dividir_sin: "c \<notin> set a \<Longrightarrow> dividir c a = [a]"
  by (induction a) auto

lemma dividir_append: "c \<notin> set a \<Longrightarrow> dividir c (a @ c # r) = a # dividir c r"
  by (induction a) auto

lemma digito_no_guion: "list_all digito a \<Longrightarrow> CHR ''-'' \<notin> set a"
  by (auto simp add: list_all_iff digito_def)

lemma formato_iso_partes:
  assumes "formato_iso s"
  shows "s = take 4 s @ CHR ''-'' # take 2 (drop 5 s) @ CHR ''-'' # drop 8 s"
proof -
  from assms have len: "length s = 10" and g1: "s ! 4 = CHR ''-''" and g2: "s ! 7 = CHR ''-''"
    by (simp_all add: formato_iso_def)
  have "drop 4 s = s ! 4 # drop 5 s"
    using len Cons_nth_drop_Suc [of 4 s] by simp
  moreover have "drop 7 s = s ! 7 # drop 8 s"
    using len Cons_nth_drop_Suc [of 7 s] by simp
  moreover have "drop 5 s = take 2 (drop 5 s) @ drop 7 s"
    using append_take_drop_id [of 2 "drop 5 s"] by simp
  moreover have "s = take 4 s @ drop 4 s" by simp
  ultimately show ?thesis using g1 g2 by metis
qed

lemma formato_iso_analizar:
  assumes "formato_iso s" and "analizar_fecha s = Inr d"
  shows "d = componentes s"
proof -
  let ?a = "take 4 s" and ?m = "take 2 (drop 5 s)" and ?d = "drop 8 s"
  from assms(1) have dig: "list_all digito ?a" "list_all digito ?m" "list_all digito ?d"
    by (simp_all add: formato_iso_def)
  have "dividir (CHR ''-'') (?a @ CHR ''-'' # ?m @ CHR ''-'' # ?d) = [?a, ?m, ?d]"
    using dig by (simp add: dividir_append dividir_sin digito_no_guion)
  then have "dividir (CHR ''-'') s = [?a, ?m, ?d]"
    using formato_iso_partes [OF assms(1)] by simp
  with assms(2) show ?thesis
    by (simp add: analizar_fecha_def componentes_def split: if_splits)
qed

lemma formato_iso_orden:
  assumes "formato_iso s" and "formato_iso t"
  shows "s \<le> t \<longleftrightarrow> componentes s \<le> componentes t"
proof -
  let ?a = "take 4 s" and ?m = "take 2 (drop 5 s)" and ?d = "drop 8 s"
  let ?a' = "take 4 t" and ?m' = "take 2 (drop 5 t)" and ?d' = "drop 8 t"
  from assms have len: "length ?a = length ?a'" "length ?m = length ?m'" "length ?d = length ?d'"
    by (simp_all add: formato_iso_def)
  from assms have dig: "list_all digito ?a" "list_all digito ?m" "list_all digito ?d"
    "list_all digito ?a'" "list_all digito ?m'" "list_all digito ?d'"
    by (simp_all add: formato_iso_def)
  note oa = numero_orden [OF len(1) dig(1) dig(4)]
  note om = numero_orden [OF len(2) dig(2) dig(5)]
  note od = numero_orden [OF len(3) dig(3) dig(6)]
  have "s \<le> t \<longleftrightarrow>
      ?a @ CHR ''-'' # ?m @ CHR ''-'' # ?d \<le> ?a' @ CHR ''-'' # ?m' @ CHR ''-'' # ?d'"
    using formato_iso_partes [OF assms(1)] formato_iso_partes [OF assms(2)] by simp
  also have "\<dots> \<longleftrightarrow> ?a < ?a' \<or> ?a = ?a' \<and> (?m < ?m' \<or> ?m = ?m' \<and> ?d \<le> ?d')"
    by (simp add: append_le_append [OF len(1)] append_le_append [OF len(2)])
  also have "\<dots> \<longleftrightarrow> componentes s \<le> componentes t"
    using oa om od unfolding componentes_def by (auto simp add: le_less)
  finally show ?thesis .
qed

lemma fecha_maxima_componentes:
  "formato_iso FECHA_MAXIMA_DATOS_COVID" "componentes FECHA_MAXIMA_DATOS_COVID = (2024, 8, 4)"
  "formato_iso FECHA_MAXIMA" "componentes FECHA_MAXIMA = (2024, 8, 4)"
  by (simp_all add: FECHA_MAXIMA_DATOS_COVID_def FECHA_MAXIMA_def formato_iso_def digito_def
      componentes_def numero_def valor_digito_def)

lemma filtrado_b_filter:
  "filtrado_b datos =
     filter (\<lambda>r. date r \<le> FECHA_MAXIMA_DATOS_COVID \<and> \<not> startswith (iso_code r) ''OWID'') datos"
  by (simp add: filtrado_b_def excluir_owid_filter filtrar_fecha_filter conj_commute)

lemma filtrado_a_filter:
  "filtrado_a datos = filter (\<lambda>r. date r \<le> FECHA_MAXIMA) datos"
  by (simp add: filtrado_a_def filtrar_fecha_filter)


section \<open>The temporal filter (C1, C8, C9)\<close>

text \<open>
  Claim C1. The temporal filter keeps a record if and only if its date is at most the
  configured maximum date and, where the excluded prefix is set (variant b), its country
  code does not start with \<^verbatim>\<open>OWID\<close>; the kept records stay in their relative order.
  Both facts are the equation with \<^const>\<open>filter\<close>, which keeps exactly the rows that
  satisfy the predicate, in order. The comparison the code makes is the one of the raw
  date strings; on a table whose dates are all written \<^verbatim>\<open>YYYY-MM-DD\<close> it is the
  comparison of the calendar dates with 4 August 2024.
\<close>

theorem filtro_temporal_contrato:
  "filtrado_b datos =
     filter (\<lambda>r. date r \<le> FECHA_MAXIMA_DATOS_COVID \<and> \<not> startswith (iso_code r) ''OWID'') datos
   \<and> filtrado_a datos = filter (\<lambda>r. date r \<le> FECHA_MAXIMA) datos
   \<and> (list_all (\<lambda>r. formato_iso (date r)) datos \<longrightarrow>
        filtrado_b datos =
          filter (\<lambda>r. componentes (date r) \<le> (2024, 8, 4) \<and> \<not> startswith (iso_code r) ''OWID'')
            datos
        \<and> filtrado_a datos = filter (\<lambda>r. componentes (date r) \<le> (2024, 8, 4)) datos)"
proof (intro conjI impI)
  show "filtrado_b datos =
     filter (\<lambda>r. date r \<le> FECHA_MAXIMA_DATOS_COVID \<and> \<not> startswith (iso_code r) ''OWID'') datos"
    by (rule filtrado_b_filter)
  show "filtrado_a datos = filter (\<lambda>r. date r \<le> FECHA_MAXIMA) datos"
    by (rule filtrado_a_filter)
next
  assume iso: "list_all (\<lambda>r. formato_iso (date r)) datos"
  have b: "date r \<le> FECHA_MAXIMA_DATOS_COVID \<longleftrightarrow> componentes (date r) \<le> (2024, 8, 4)"
    if "r \<in> set datos" for r
    using that iso formato_iso_orden [of "date r" FECHA_MAXIMA_DATOS_COVID]
    by (simp add: list_all_iff fecha_maxima_componentes)
  have a: "date r \<le> FECHA_MAXIMA \<longleftrightarrow> componentes (date r) \<le> (2024, 8, 4)"
    if "r \<in> set datos" for r
    using that iso formato_iso_orden [of "date r" FECHA_MAXIMA]
    by (simp add: list_all_iff fecha_maxima_componentes)
  show "filtrado_b datos =
     filter (\<lambda>r. componentes (date r) \<le> (2024, 8, 4) \<and> \<not> startswith (iso_code r) ''OWID'') datos"
    unfolding filtrado_b_filter by (rule filter_cong) (simp_all add: b)
  show "filtrado_a datos = filter (\<lambda>r. componentes (date r) \<le> (2024, 8, 4)) datos"
    unfolding filtrado_a_filter by (rule filter_cong) (simp_all add: a)
qed

theorem filtro_temporal_contrato_witness:
  "list_all (\<lambda>r. formato_iso (date r)) datos_ejemplo
   \<and> filtrado_b datos_ejemplo =
       filter (\<lambda>r. componentes (date r) \<le> (2024, 8, 4) \<and> \<not> startswith (iso_code r) ''OWID'')
         datos_ejemplo
   \<and> filtrado_b datos_ejemplo =
       [ejemplo ''USA'' ''2024-01-01'' (Some 100), ejemplo ''CAN'' ''2024-08-04'' None]
   \<and> filtrado_a datos_ejemplo =
       [ejemplo ''USA'' ''2024-01-01'' (Some 100), ejemplo ''OWID_WRL'' ''2024-01-01'' (Some 150),
        ejemplo ''CAN'' ''2024-08-04'' None]"
proof -
  have iso: "list_all (\<lambda>r. formato_iso (date r)) datos_ejemplo"
    by (simp add: datos_ejemplo_def ejemplo_def formato_iso_def digito_def)
  have "filtrado_b datos_ejemplo =
       filter (\<lambda>r. componentes (date r) \<le> (2024, 8, 4) \<and> \<not> startswith (iso_code r) ''OWID'')
         datos_ejemplo"
    and "filtrado_a datos_ejemplo = filter (\<lambda>r. componentes (date r) \<le> (2024, 8, 4)) datos_ejemplo"
    using filtro_temporal_contrato [of datos_ejemplo] iso by blast+
  moreover have "filter (\<lambda>r. componentes (date r) \<le> (2024, 8, 4) \<and> \<not> startswith (iso_code r) ''OWID'')
         datos_ejemplo = [ejemplo ''USA'' ''2024-01-01'' (Some 100), ejemplo ''CAN'' ''2024-08-04'' None]"
    by (simp add: datos_ejemplo_def ejemplo_def componentes_def numero_def valor_digito_def
        startswith_def)
  moreover have "filter (\<lambda>r. componentes (date r) \<le> (2024, 8, 4)) datos_ejemplo =
       [ejemplo ''USA'' ''2024-01-01'' (Some 100), ejemplo ''OWID_WRL'' ''2024-01-01'' (Some 150),
        ejemplo ''CAN'' ''2024-08-04'' None]"
    by (simp add: datos_ejemplo_def ejemplo_def componentes_def numero_def valor_digito_def)
  ultimately show ?thesis using iso by simp
qed

lemma invertir_presentes:
  "list_all (\<lambda>r. g r \<noteq> None) xs \<Longrightarrow>
     invertir (map (\<lambda>r. map_option f (g r)) xs) =
       Inr (map (\<lambda>r. case g r of None \<Rightarrow> False | Some c \<Rightarrow> \<not> f c) xs)"
  by (induction xs) auto

lemma invertir_faltante:
  "None \<in> set bs \<Longrightarrow> invertir bs = Inl TypeError"
  by (induction bs rule: invertir.induct) auto

lemma filtro_temporal_completo:
  assumes "list_all (\<lambda>r. csv_date r \<noteq> None \<and> csv_iso_code r \<noteq> None) datos"
  shows "filtro_temporal fecha_maxima datos =
     Inr (filter (\<lambda>r. (case csv_date r of None \<Rightarrow> False | Some d \<Rightarrow> d \<le> fecha_maxima)
                    \<and> (case csv_iso_code r of None \<Rightarrow> False
                        | Some c \<Rightarrow> \<not> startswith c ''OWID'')) datos)"
proof -
  let ?p = "\<lambda>r. case csv_date r of None \<Rightarrow> False | Some d \<Rightarrow> d \<le> fecha_maxima"
  let ?q = "\<lambda>r. case csv_iso_code r of None \<Rightarrow> False | Some c \<Rightarrow> \<not> startswith c ''OWID''"
  from assms have fechas: "\<not> columna_float (map csv_date datos)"
    and codigos: "\<not> columna_float (map csv_iso_code datos)"
    by (cases datos; simp add: columna_float_def)+
  have l68: "le_cadena (map csv_date datos) fecha_maxima = Inr (map ?p datos)"
    using fechas by (simp add: le_cadena_def comp_def)
  from assms have "list_all (\<lambda>r. csv_iso_code r \<noteq> None) (filter ?p datos)"
    by (simp add: list_all_iff)
  then have l72: "invertir (str_startswith (map csv_iso_code (filter ?p datos)) ''OWID'') =
      Inr (map ?q (filter ?p datos))"
    unfolding str_startswith_def map_map comp_def by (rule invertir_presentes)
  have "filtro_temporal fecha_maxima datos = Inr (filter ?q (filter ?p datos))"
    by (simp add: filtro_temporal_def l68 seleccionar_map codigos l72)
  then show ?thesis by (simp add: conj_commute)
qed

text \<open>
  Claim C8, as amended. The claim asks for a validation error when the maximum date does
  not parse, and for no failure otherwise. The code never parses the bound: it compares
  it, as a string, with every date string. For every bound, also one that is no date,
  the filter returns the filtered table whenever every record has a date string and a
  country code string; an empty table gives an empty table.
\<close>

theorem filtro_temporal_no_valida:
  assumes "list_all (\<lambda>r. csv_date r \<noteq> None \<and> csv_iso_code r \<noteq> None) datos"
  shows "filtro_temporal fecha_maxima datos =
     Inr (filter (\<lambda>r. (case csv_date r of None \<Rightarrow> False | Some d \<Rightarrow> d \<le> fecha_maxima)
                    \<and> (case csv_iso_code r of None \<Rightarrow> False
                        | Some c \<Rightarrow> \<not> startswith c ''OWID'')) datos)
    \<and> filtro_temporal fecha_maxima [] = Inr []"
proof
  show "filtro_temporal fecha_maxima datos =
     Inr (filter (\<lambda>r. (case csv_date r of None \<Rightarrow> False | Some d \<Rightarrow> d \<le> fecha_maxima)
                    \<and> (case csv_iso_code r of None \<Rightarrow> False
                        | Some c \<Rightarrow> \<not> startswith c ''OWID'')) datos)"
    using assms by (rule filtro_temporal_completo)
  have "list_all (\<lambda>r. csv_date r \<noteq> None \<and> csv_iso_code r \<noteq> None) []"
    by simp
  then show "filtro_temporal fecha_maxima [] = Inr []"
    using filtro_temporal_completo [of "[]" fecha_maxima] by simp
qed

theorem filtro_temporal_no_valida_witness:
  "list_all (\<lambda>r. csv_date r \<noteq> None \<and> csv_iso_code r \<noteq> None)
     [leido (Some ''USA'') (Some ''2024-01-01''), leido (Some ''OWID_WRL'') (Some ''2024-01-01''),
      leido (Some ''CAN'') (Some ''2024-08-05'')]
   \<and> analizar_fecha ''hoy'' = Inl ValueError
   \<and> filtro_temporal ''hoy''
       [leido (Some ''USA'') (Some ''2024-01-01''), leido (Some ''OWID_WRL'') (Some ''2024-01-01''),
        leido (Some ''CAN'') (Some ''2024-08-05'')] =
       Inr [leido (Some ''USA'') (Some ''2024-01-01''), leido (Some ''CAN'') (Some ''2024-08-05'')]
   \<and> filtro_temporal FECHA_MAXIMA_DATOS_COVID
       [leido (Some ''USA'') (Some ''2024-01-01''), leido (Some ''OWID_WRL'') (Some ''2024-01-01''),
        leido (Some ''CAN'') (Some ''2024-08-05'')] =
       Inr [leido (Some ''USA'') (Some ''2024-01-01'')]"
proof -
  let ?d = "[leido (Some ''USA'') (Some ''2024-01-01''),
      leido (Some ''OWID_WRL'') (Some ''2024-01-01''), leido (Some ''CAN'') (Some ''2024-08-05'')]"
  have h: "list_all (\<lambda>r. csv_date r \<noteq> None \<and> csv_iso_code r \<noteq> None) ?d"
    by (simp add: leido_def)
  have n: "analizar_fecha ''hoy'' = Inl ValueError"
    by (simp add: analizar_fecha_def)
  show ?thesis
    using filtro_temporal_no_valida [OF h, of "''hoy''"]
      filtro_temporal_no_valida [OF h, of FECHA_MAXIMA_DATOS_COVID] h n
    by (simp add: leido_def startswith_def FECHA_MAXIMA_DATOS_COVID_def)
qed

text \<open>The claim fails in both halves. The bound \<^verbatim>\<open>hoy\<close> is no date, and the filter
  returns a table all the same. With the bound of the script, a record within the bound
  whose country code is missing makes line 72 raise, and so does, in line 68, a table
  whose only record has no date.\<close>

theorem filtro_temporal_sin_validacion_counterexample:
  "analizar_fecha ''hoy'' = Inl ValueError
   \<and> filtro_temporal ''hoy'' [leido (Some ''USA'') (Some ''2024-01-01'')] =
       Inr [leido (Some ''USA'') (Some ''2024-01-01'')]
   \<and> analizar_fecha FECHA_MAXIMA_DATOS_COVID = Inr (2024, 8, 4)
   \<and> filtro_temporal FECHA_MAXIMA_DATOS_COVID
       [leido (Some ''USA'') (Some ''2024-01-01''), leido None (Some ''2024-01-02'')] =
       Inl TypeError
   \<and> filtro_temporal FECHA_MAXIMA_DATOS_COVID [leido (Some ''USA'') None] = Inl TypeError"
  by (simp add: analizar_fecha_def filtro_temporal_def le_cadena_def columna_float_def
      seleccionar_def str_startswith_def startswith_def leido_def FECHA_MAXIMA_DATOS_COVID_def
      digito_def numero_def valor_digito_def dias_del_mes_def bisiesto_def)

text \<open>On records whose strings are all present the filter on the table as read is the
  filter of variant b on the records. A record without a date is dropped by line 68 when
  another record has one, and a table all of whose codes are missing stops at the
  accessor.\<close>

lemma filtro_temporal_como_leido:
  "filtro_temporal fecha_maxima (map como_leido datos) =
     Inr (map como_leido (excluir_owid (filtrar_fecha fecha_maxima datos)))"
proof -
  have "list_all (\<lambda>r. csv_date r \<noteq> None \<and> csv_iso_code r \<noteq> None) (map como_leido datos)"
    by (simp add: list_all_iff como_leido_def)
  then show ?thesis
    by (simp add: filtro_temporal_completo excluir_owid_filter filtrar_fecha_filter filter_map
        comp_def como_leido_def conj_commute)
qed

lemma filtro_temporal_faltantes:
  "filtro_temporal FECHA_MAXIMA_DATOS_COVID
     [leido (Some ''USA'') (Some ''2024-01-01''), leido (Some ''CAN'') None] =
     Inr [leido (Some ''USA'') (Some ''2024-01-01'')]
   \<and> filtro_temporal FECHA_MAXIMA_DATOS_COVID [leido None (Some ''2024-01-01'')] =
       Inl AttributeError"
  by (simp add: filtro_temporal_def le_cadena_def columna_float_def seleccionar_def
      str_startswith_def startswith_def leido_def FECHA_MAXIMA_DATOS_COVID_def)

text \<open>
  Claim C9, as amended. The bound is applied by comparing raw date strings with the
  literal \<^verbatim>\<open>2024-08-04\<close>, before the dates are parsed. Whenever a record's date string
  is a zero-padded \<^verbatim>\<open>YYYY-MM-DD\<close> date, the comparison of the strings is the comparison
  of the calendar dates.
\<close>

theorem orden_cadenas_iso:
  assumes "formato_iso s" and "analizar_fecha s = Inr d"
  shows "analizar_fecha FECHA_MAXIMA_DATOS_COVID = Inr (2024, 8, 4)
    \<and> (s \<le> FECHA_MAXIMA_DATOS_COVID \<longleftrightarrow> d \<le> (2024, 8, 4))
    \<and> (s \<le> FECHA_MAXIMA \<longleftrightarrow> d \<le> (2024, 8, 4))"
proof -
  have "analizar_fecha FECHA_MAXIMA_DATOS_COVID = Inr (2024, 8, 4)"
    by (simp add: analizar_fecha_def FECHA_MAXIMA_DATOS_COVID_def digito_def
      numero_def valor_digito_def dias_del_mes_def bisiesto_def)
  moreover have "d = componentes s"
    using assms by (rule formato_iso_analizar)
  ultimately show ?thesis
    using formato_iso_orden [OF assms(1), of FECHA_MAXIMA_DATOS_COVID]
      formato_iso_orden [OF assms(1), of FECHA_MAXIMA]
    by (simp add: fecha_maxima_componentes)
qed

theorem orden_cadenas_iso_witness:
  "formato_iso ''2024-08-05'' \<and> analizar_fecha ''2024-08-05'' = Inr (2024, 8, 5)
   \<and> \<not> ''2024-08-05'' \<le> FECHA_MAXIMA_DATOS_COVID
   \<and> \<not> ((2024, 8, 5) :: fecha_t) \<le> (2024, 8, 4)"
proof -
  have f: "formato_iso ''2024-08-05''"
    by (simp add: formato_iso_def digito_def)
  have a: "analizar_fecha ''2024-08-05'' = Inr (2024, 8, 5)"
    by (simp add: analizar_fecha_def digito_def numero_def valor_digito_def dias_del_mes_def
        bisiesto_def)
  show ?thesis using orden_cadenas_iso [OF f a] f a by simp
qed

text \<open>The converse fails: \<^verbatim>\<open>2023-1-1\<close> is not zero-padded, it parses to 1 January
  2023, and both comparisons say that it is within the bound. Another date without
  padding, \<^verbatim>\<open>2024-8-4\<close>, is the bound's own day and the string comparison drops it.\<close>

theorem orden_cadenas_no_iso_counterexample:
  "\<not> formato_iso ''2023-1-1''
   \<and> analizar_fecha ''2023-1-1'' = Inr (2023, 1, 1)
   \<and> analizar_fecha FECHA_MAXIMA_DATOS_COVID = Inr (2024, 8, 4)
   \<and> ''2023-1-1'' \<le> FECHA_MAXIMA_DATOS_COVID
   \<and> ((2023, 1, 1) :: fecha_t) \<le> (2024, 8, 4)"
  by (simp add: formato_iso_def analizar_fecha_def FECHA_MAXIMA_DATOS_COVID_def digito_def
      numero_def valor_digito_def dias_del_mes_def bisiesto_def)

lemma orden_cadenas_sin_relleno:
  "analizar_fecha ''2024-8-4'' = Inr (2024, 8, 4) \<and> \<not> ''2024-8-4'' \<le> FECHA_MAXIMA_DATOS_COVID"
  by (simp add: analizar_fecha_def FECHA_MAXIMA_DATOS_COVID_def digito_def
      numero_def valor_digito_def dias_del_mes_def bisiesto_def)



lemma filtro_temporal_codigo_faltante:
  assumes "r \<in> set datos" and "csv_date r = Some d" and "d \<le> fecha_maxima"
    and "csv_iso_code r = None"
  shows "\<exists>e. filtro_temporal fecha_maxima datos = Inl e"
proof (cases "columna_float (map csv_iso_code datos)")
  case True
  from assms(1,2) have "\<not> columna_float (map csv_date datos)"
    by (auto simp add: columna_float_def list_all_iff)
  with True show ?thesis
    by (simp add: filtro_temporal_def le_cadena_def)
next
  case False
  let ?p = "\<lambda>r. case csv_date r of None \<Rightarrow> False | Some d \<Rightarrow> d \<le> fecha_maxima"
  from assms(1,2) have fechas: "\<not> columna_float (map csv_date datos)"
    by (auto simp add: columna_float_def list_all_iff)
  from assms have "r \<in> set (filter ?p datos)" by simp
  with assms(4) have "None \<in> set (str_startswith (map csv_iso_code (filter ?p datos)) ''OWID'')"
    by (force simp add: str_startswith_def)
  then have "invertir (str_startswith (map csv_iso_code (filter ?p datos)) ''OWID'') =
      Inl TypeError"
    by (rule invertir_faltante)
  with False fechas show ?thesis
    by (simp add: filtro_temporal_def le_cadena_def seleccionar_map comp_def)
qed


section \<open>The aggregations (C2, C3, C7)\<close>

lemma sum_list_presentes:
  "sum_list (presentes vs) = (\<Sum>v\<leftarrow>vs. case v of None \<Rightarrow> 0 | Some x \<Rightarrow> x)"
  unfolding presentes_def by (induction vs) (auto split: option.splits)

lemma sum_por_grupos:
  fixes f :: "'r \<Rightarrow> real"
  assumes "finite K" and "clave ` set filas \<subseteq> K"
  shows "(\<Sum>k\<in>K. \<Sum>r\<leftarrow>filter (\<lambda>r. clave r = k) filas. f r) = (\<Sum>r\<leftarrow>filas. f r)"
  using assms(2)
proof (induction filas)
  case Nil
  show ?case by simp
next
  case (Cons r rs)
  then have r: "clave r \<in> K" and rs: "clave ` set rs \<subseteq> K" by simp_all
  have "(\<Sum>k\<in>K. \<Sum>x\<leftarrow>filter (\<lambda>x. clave x = k) (r # rs). f x) =
      (\<Sum>k\<in>K. (if k = clave r then f r else 0) + (\<Sum>x\<leftarrow>filter (\<lambda>x. clave x = k) rs. f x))"
    by (rule sum.cong) auto
  also have "\<dots> = (\<Sum>k\<in>K. if k = clave r then f r else 0) +
      (\<Sum>k\<in>K. \<Sum>x\<leftarrow>filter (\<lambda>x. clave x = k) rs. f x)"
    by (rule sum.distrib)
  also have "\<dots> = f r + (\<Sum>x\<leftarrow>rs. f x)"
    using assms(1) r Cons.IH [OF rs] by simp
  finally show ?case by simp
qed

text \<open>
  Claim C2. Mass conservation of the sum by date: for every table, the per-date sums of
  the output rows add up to the sum of the case counts of all records of the table (a
  missing count adds nothing, on either side).
\<close>

theorem conservacion_de_masa:
  "sum_list (map snd (casos_totales_por_fecha datos)) =
     (\<Sum>r\<leftarrow>datos. case casos_totales r of None \<Rightarrow> 0 | Some x \<Rightarrow> x)"
proof -
  let ?f = "\<lambda>r. case casos_totales r of None \<Rightarrow> 0 | Some x \<Rightarrow> (x::real)"
  let ?ks = "sort (remdups (map fecha datos))"
  have d: "distinct ?ks" and s: "set ?ks = fecha ` set datos" by simp_all
  have "sum_list (map snd (casos_totales_por_fecha datos)) =
      (\<Sum>k\<leftarrow>?ks. \<Sum>r\<leftarrow>filter (\<lambda>r. fecha r = k) datos. ?f r)"
    by (simp add: casos_totales_por_fecha_def groupby_def sum_skipna_def sum_list_presentes
        comp_def)
  also have "\<dots> = (\<Sum>k\<in>set ?ks. \<Sum>r\<leftarrow>filter (\<lambda>r. fecha r = k) datos. ?f r)"
    using d by (rule sum_list_distinct_conv_sum_set)
  also have "\<dots> = (\<Sum>r\<leftarrow>datos. ?f r)"
    by (rule sum_por_grupos) (simp_all add: s)
  finally show ?thesis .
qed

lemma filter_clave_unica: "distinct ks \<Longrightarrow> c \<in> set ks \<Longrightarrow> filter (\<lambda>k. k = c) ks = [c]"
  by (induction ks) (auto simp add: filter_empty_conv)

lemma groupby_fila:
  "filter (\<lambda>fila. fst fila = c) (map (\<lambda>(k, vs). (k, agg vs)) (groupby clave columna filas)) =
     (if c \<in> clave ` set filas
      then [(c, agg (map columna (filter (\<lambda>r. clave r = c) filas)))] else [])"
proof -
  let ?ks = "sort (remdups (map clave filas))"
  let ?g = "\<lambda>k. (k, agg (map columna (filter (\<lambda>r. clave r = k) filas)))"
  have "filter (\<lambda>fila. fst fila = c) (map (\<lambda>(k, vs). (k, agg vs)) (groupby clave columna filas)) =
      map ?g (filter (\<lambda>k. k = c) ?ks)"
    by (simp add: groupby_def filter_map comp_def)
  moreover have "filter (\<lambda>k. k = c) ?ks = (if c \<in> clave ` set filas then [c] else [])"
    using filter_clave_unica [of ?ks c] by (auto simp add: filter_empty_conv)
  ultimately show ?thesis by simp
qed

lemma max_skipna_Max:
  "max_skipna vs = (if set (presentes vs) = {} then None else Some (Max (set (presentes vs))))"
proof (cases "presentes vs")
  case Nil
  then show ?thesis by (simp add: max_skipna_def)
next
  case (Cons x xs)
  have "fold max xs x = Max (set (x # xs))"
    by (rule Max.set_eq_fold [symmetric])
  with Cons show ?thesis by (simp add: max_skipna_def)
qed

lemma set_presentes: "set (presentes vs) = {v. Some v \<in> set vs}"
  unfolding presentes_def by (induction vs) (auto split: option.splits)

lemma valores_grupo:
  "set (presentes (map casos_totales (filter (\<lambda>r. codigo_iso r = c) datos))) =
     {v. \<exists>r\<in>set datos. codigo_iso r = c \<and> casos_totales r = Some v}"
  by (auto simp add: set_presentes image_iff)

text \<open>
  Claim C3. For every country code that occurs in the table, the aggregation by country
  has exactly one row of that code, and its value is the maximum of the case counts of
  that code's records. The counts are taken over the records that have one; a code none
  of whose records has a count gets the missing value.
\<close>

theorem maximo_por_pais:
  assumes "c \<in> codigo_iso ` set datos"
  shows "\<exists>m. filter (\<lambda>fila. fst fila = c) (casos_totales_por_pais datos) = [(c, m)]
    \<and> m = (if {v. \<exists>r\<in>set datos. codigo_iso r = c \<and> casos_totales r = Some v} = {} then None
           else Some (Max {v. \<exists>r\<in>set datos. codigo_iso r = c \<and> casos_totales r = Some v}))"
  using assms
  by (simp only: casos_totales_por_pais_def groupby_fila max_skipna_Max valores_grupo if_True)
    simp

lemma tabla_ejemplo_por_fecha:
  "casos_totales_por_fecha tabla_ejemplo =
     [((2024, 1, 1), 150), ((2024, 1, 2), 150), ((2024, 1, 3), 0)]"
  by (simp add: casos_totales_por_fecha_def groupby_def tabla_ejemplo_def sum_skipna_def
      presentes_def)

lemma tabla_ejemplo_por_pais:
  "casos_totales_por_pais tabla_ejemplo =
     [(''ATA'', None), (''CAN'', Some 50), (''USA'', Some 150)]"
  by (simp add: casos_totales_por_pais_def groupby_def tabla_ejemplo_def max_skipna_def
      presentes_def)

theorem maximo_por_pais_witness:
  "''USA'' \<in> codigo_iso ` set tabla_ejemplo
   \<and> filter (\<lambda>fila. fst fila = ''USA'') (casos_totales_por_pais tabla_ejemplo) =
       [(''USA'', Some 150)]
   \<and> {v. \<exists>r\<in>set tabla_ejemplo. codigo_iso r = ''USA'' \<and> casos_totales r = Some v} \<noteq> {}
   \<and> Max {v. \<exists>r\<in>set tabla_ejemplo. codigo_iso r = ''USA'' \<and> casos_totales r = Some v} = 150"
proof -
  have c: "''USA'' \<in> codigo_iso ` set tabla_ejemplo"
    by (simp add: tabla_ejemplo_def)
  have f: "filter (\<lambda>fila. fst fila = ''USA'') (casos_totales_por_pais tabla_ejemplo) =
       [(''USA'', Some 150)]"
    by (simp add: tabla_ejemplo_por_pais)
  from maximo_por_pais [OF c] f
  have "Some 150 =
      (if {v. \<exists>r\<in>set tabla_ejemplo. codigo_iso r = ''USA'' \<and> casos_totales r = Some v} = {}
       then None
       else Some (Max {v. \<exists>r\<in>set tabla_ejemplo. codigo_iso r = ''USA'' \<and> casos_totales r = Some v}))"
    by simp
  then have "{v. \<exists>r\<in>set tabla_ejemplo. codigo_iso r = ''USA'' \<and> casos_totales r = Some v} \<noteq> {}
    \<and> Max {v. \<exists>r\<in>set tabla_ejemplo. codigo_iso r = ''USA'' \<and> casos_totales r = Some v} = 150"
    by (simp split: if_splits)
  with c f show ?thesis by simp
qed

lemma presentes_sin_faltantes:
  "presentes (map casos_totales (filter (\<lambda>r. clave r = k) (sin_faltantes datos))) =
     presentes (map casos_totales (filter (\<lambda>r. clave r = k) datos))"
  unfolding presentes_def sin_faltantes_def
  by (induction datos) auto

lemma claves_sin_faltantes:
  fixes clave :: "'f fila \<Rightarrow> 'k::linorder"
  shows "filter (\<lambda>k. k \<in> clave ` set (sin_faltantes datos)) (sort (remdups (map clave datos))) =
     sort (remdups (map clave (sin_faltantes datos)))"
proof (rule sorted_distinct_set_unique)
  show "set (filter (\<lambda>k. k \<in> clave ` set (sin_faltantes datos)) (sort (remdups (map clave datos)))) =
      set (sort (remdups (map clave (sin_faltantes datos))))"
    by (auto simp add: sin_faltantes_def)
qed (simp_all add: sorted_wrt_filter)

lemma groupby_sin_faltantes:
  fixes clave :: "'f fila \<Rightarrow> 'k::linorder"
  assumes "\<And>k. agg (map casos_totales (filter (\<lambda>r. clave r = k) (sin_faltantes datos))) =
     agg (map casos_totales (filter (\<lambda>r. clave r = k) datos))"
  shows "filter (\<lambda>(k, a). k \<in> clave ` set (sin_faltantes datos))
       (map (\<lambda>(k, vs). (k, agg vs)) (groupby clave casos_totales datos)) =
     map (\<lambda>(k, vs). (k, agg vs)) (groupby clave casos_totales (sin_faltantes datos))"
proof -
  have "filter (\<lambda>(k, a). k \<in> clave ` set (sin_faltantes datos))
       (map (\<lambda>(k, vs). (k, agg vs)) (groupby clave casos_totales datos)) =
     map (\<lambda>k. (k, agg (map casos_totales (filter (\<lambda>r. clave r = k) datos))))
       (filter (\<lambda>k. k \<in> clave ` set (sin_faltantes datos)) (sort (remdups (map clave datos))))"
    by (simp add: groupby_def filter_map comp_def)
  also have "\<dots> = map (\<lambda>k. (k, agg (map casos_totales (filter (\<lambda>r. clave r = k) datos))))
       (sort (remdups (map clave (sin_faltantes datos))))"
    by (simp only: claves_sin_faltantes)
  also have "\<dots> = map (\<lambda>(k, vs). (k, agg vs)) (groupby clave casos_totales (sin_faltantes datos))"
    by (simp add: groupby_def comp_def assms)
  finally show ?thesis .
qed

lemma grupo_sin_presentes:
  "k \<notin> clave ` set (sin_faltantes datos) \<longleftrightarrow>
     presentes (map casos_totales (filter (\<lambda>r. clave r = k) datos)) = []"
  unfolding presentes_def sin_faltantes_def
  by (induction datos) auto

text \<open>
  Claim C7. Records whose case count is missing contribute neither to the sum by date nor
  to the maximum by country: the rows of every date, and of every country, that has a
  record with a count are exactly the rows computed from the table without the records
  that lack one. No missing value spreads to such a row. The remaining rows are those of
  the groups without any count: their sum is 0, and their maximum is missing, since
  there is no number to take it of.
\<close>

theorem agregacion_excluye_faltantes:
  "filter (\<lambda>(d, s). d \<in> fecha ` set (sin_faltantes datos)) (casos_totales_por_fecha datos) =
     casos_totales_por_fecha (sin_faltantes datos)
   \<and> (\<forall>(d, s) \<in> set (casos_totales_por_fecha datos).
        d \<notin> fecha ` set (sin_faltantes datos) \<longrightarrow> s = 0)
   \<and> filter (\<lambda>(c, m). c \<in> codigo_iso ` set (sin_faltantes datos)) (casos_totales_por_pais datos) =
       casos_totales_por_pais (sin_faltantes datos)
   \<and> (\<forall>(c, m) \<in> set (casos_totales_por_pais datos).
        m = None \<longleftrightarrow> c \<notin> codigo_iso ` set (sin_faltantes datos))"
proof (intro conjI)
  show "filter (\<lambda>(d, s). d \<in> fecha ` set (sin_faltantes datos)) (casos_totales_por_fecha datos) =
     casos_totales_por_fecha (sin_faltantes datos)"
    unfolding casos_totales_por_fecha_def
    by (rule groupby_sin_faltantes) (simp add: sum_skipna_def presentes_sin_faltantes)
  show "filter (\<lambda>(c, m). c \<in> codigo_iso ` set (sin_faltantes datos)) (casos_totales_por_pais datos) =
       casos_totales_por_pais (sin_faltantes datos)"
    unfolding casos_totales_por_pais_def
    by (rule groupby_sin_faltantes) (simp add: max_skipna_def presentes_sin_faltantes)
  show "\<forall>(d, s) \<in> set (casos_totales_por_fecha datos).
        d \<notin> fecha ` set (sin_faltantes datos) \<longrightarrow> s = 0"
    by (auto simp add: casos_totales_por_fecha_def groupby_def sum_skipna_def grupo_sin_presentes)
  show "\<forall>(c, m) \<in> set (casos_totales_por_pais datos).
        m = None \<longleftrightarrow> c \<notin> codigo_iso ` set (sin_faltantes datos)"
    by (auto simp add: casos_totales_por_pais_def groupby_def max_skipna_def grupo_sin_presentes
        split: list.splits)
qed

theorem agregacion_excluye_faltantes_witness:
  "casos_totales_por_fecha tabla_ejemplo =
     [((2024, 1, 1), 150), ((2024, 1, 2), 150), ((2024, 1, 3), 0)]
   \<and> (2024, 1, 3) \<notin> fecha ` set (sin_faltantes tabla_ejemplo)
   \<and> casos_totales_por_fecha (sin_faltantes tabla_ejemplo) =
       [((2024, 1, 1), 150), ((2024, 1, 2), 150)]
   \<and> casos_totales_por_pais tabla_ejemplo =
       [(''ATA'', None), (''CAN'', Some 50), (''USA'', Some 150)]
   \<and> ''ATA'' \<notin> codigo_iso ` set (sin_faltantes tabla_ejemplo)
   \<and> casos_totales_por_pais (sin_faltantes tabla_ejemplo) =
       [(''CAN'', Some 50), (''USA'', Some 150)]"
proof -
  have s: "fecha ` set (sin_faltantes tabla_ejemplo) = {(2024, 1, 1), (2024, 1, 2)}"
    "codigo_iso ` set (sin_faltantes tabla_ejemplo) = {''USA'', ''CAN''}"
    by (auto simp add: sin_faltantes_def tabla_ejemplo_def)
  from agregacion_excluye_faltantes [of tabla_ejemplo]
  have "casos_totales_por_fecha (sin_faltantes tabla_ejemplo) =
      filter (\<lambda>(d, s). d \<in> fecha ` set (sin_faltantes tabla_ejemplo))
        (casos_totales_por_fecha tabla_ejemplo)"
    and "casos_totales_por_pais (sin_faltantes tabla_ejemplo) =
      filter (\<lambda>(c, m). c \<in> codigo_iso ` set (sin_faltantes tabla_ejemplo))
        (casos_totales_por_pais tabla_ejemplo)"
    by simp_all
  then show ?thesis
    by (simp add: s tabla_ejemplo_por_fecha tabla_ejemplo_por_pais)
qed


section \<open>The join (C4)\<close>

lemma filter_clave_map_of:
  "distinct (map fst derecha) \<Longrightarrow>
     filter (\<lambda>fila. fst fila = k) derecha =
       (case map_of derecha k of None \<Rightarrow> [] | Some v \<Rightarrow> [(k, v)])"
proof (induction derecha)
  case Nil
  show ?case by simp
next
  case (Cons fila derecha)
  then have IH: "filter (\<lambda>fila. fst fila = k) derecha =
       (case map_of derecha k of None \<Rightarrow> [] | Some v \<Rightarrow> [(k, v)])"
    and nuevo: "fst fila \<notin> fst ` set derecha"
    by simp_all
  show ?case
  proof (cases "fst fila = k")
    case True
    with nuevo have "map_of derecha k = None"
      by (simp add: map_of_eq_None_iff)
    with True IH show ?thesis by (cases fila) simp
  next
    case False
    with IH show ?thesis by (cases fila) simp
  qed
qed

lemma paises_unidos_distinct:
  assumes "distinct (map fst por_pais)"
  shows "paises_unidos paises por_pais =
     map (\<lambda>p. \<lparr>u_ADM0_ISO = ADM0_ISO p, u_geometry = geometry p,
                u_codigo_iso = (if ADM0_ISO p \<in> fst ` set por_pais then Some (ADM0_ISO p) else None),
                u_casos_totales =
                  (case map_of por_pais (ADM0_ISO p) of Some (Some v) \<Rightarrow> v | _ \<Rightarrow> 0)\<rparr>) paises"
proof (induction paises)
  case Nil
  show ?case by (simp add: paises_unidos_def merge_left_def fillna_def)
next
  case (Cons p paises)
  have "paises_unidos (p # paises) por_pais =
      fillna 0 (case filter (\<lambda>fila. fst fila = ADM0_ISO p) por_pais of
         [] \<Rightarrow>
           [\<lparr>u_ADM0_ISO = ADM0_ISO p, u_geometry = geometry p,
             u_codigo_iso = None, u_casos_totales = None\<rparr>]
       | coincidencias \<Rightarrow>
           map (\<lambda>fila.
             \<lparr>u_ADM0_ISO = ADM0_ISO p, u_geometry = geometry p,
              u_codigo_iso = Some (fst fila), u_casos_totales = snd fila\<rparr>) coincidencias)
      @ paises_unidos paises por_pais"
    by (simp add: paises_unidos_def merge_left_def fillna_def)
  then show ?case
    unfolding Cons.IH filter_clave_map_of [OF assms]
    by (auto simp add: fillna_def map_of_eq_None_iff [symmetric] split: option.splits)
qed

text \<open>
  Claim C4. Join completeness with the default zero: for every sequence of polygons and
  every sequence of country aggregates, which has one row for each country code (the
  empty one too), the joined table has exactly one feature for each polygon, in the
  order of the polygons, and a polygon without a matching aggregate gets the value 0.
\<close>

theorem union_completa:
  assumes "distinct (map fst por_pais)"
  shows "length (paises_unidos paises por_pais) = length paises
    \<and> map u_ADM0_ISO (paises_unidos paises por_pais) = map ADM0_ISO paises
    \<and> map u_geometry (paises_unidos paises por_pais) = map geometry paises
    \<and> map u_casos_totales (paises_unidos paises por_pais) =
        map (\<lambda>p. case map_of por_pais (ADM0_ISO p) of Some (Some v) \<Rightarrow> v | _ \<Rightarrow> 0) paises
    \<and> (\<forall>u\<in>set (paises_unidos paises por_pais).
          u_ADM0_ISO u \<notin> fst ` set por_pais \<longrightarrow> u_casos_totales u = 0)"
  unfolding paises_unidos_distinct [OF assms]
  by (auto simp add: comp_def map_of_eq_None_iff [symmetric])

theorem union_completa_witness:
  "distinct (map fst [(''CAN'', Some 50), (''USA'', Some (150::real))])
   \<and> length (paises_unidos poligonos_ejemplo [(''CAN'', Some 50), (''USA'', Some 150)]) = 3
   \<and> map u_casos_totales (paises_unidos poligonos_ejemplo [(''CAN'', Some 50), (''USA'', Some 150)])
       = [150, 50, 0]
   \<and> ''MEX'' \<notin> fst ` set [(''CAN'', Some 50), (''USA'', Some (150::real))]
   \<and> length (paises_unidos poligonos_ejemplo []) = 3
   \<and> map u_casos_totales (paises_unidos poligonos_ejemplo []) = [0, 0, 0]"
proof -
  have d: "distinct (map fst [(''CAN'', Some 50), (''USA'', Some (150::real))])"
    and e: "distinct (map fst ([] :: (string \<times> real option) list))"
    by simp_all
  show ?thesis
    using union_completa [OF d, of poligonos_ejemplo] union_completa [OF e, of poligonos_ejemplo]
    by (simp add: poligonos_ejemplo_def)
qed

lemma groupby_claves: "map fst (groupby clave columna filas) = sort (remdups (map clave filas))"
  by (simp add: groupby_def comp_def)

lemma casos_totales_por_pais_distinct: "distinct (map fst (casos_totales_por_pais datos))"
proof -
  have "map fst (casos_totales_por_pais datos) = map fst (groupby codigo_iso casos_totales datos)"
    by (simp add: casos_totales_por_pais_def comp_def case_prod_unfold)
  then show ?thesis by (simp add: groupby_claves)
qed

lemma length_merge_left:
  "length (merge_left paises derecha) =
     (\<Sum>p\<leftarrow>paises. max 1 (length (filter (\<lambda>fila. fst fila = ADM0_ISO p) derecha)))"
  by (induction paises) (auto simp add: merge_left_def split: list.splits)

text \<open>
  The aggregate by country has one row for each code. In the program a polygon has
  therefore at most one matching row, and the join has exactly one feature for each
  polygon. The merge itself gives a polygon one row for each matching row of the right
  table, and nothing in the scripts reports that case.
\<close>

lemma union_en_el_programa:
  "length (filter (\<lambda>fila. fst fila = ADM0_ISO p) (casos_totales_por_pais datos)) \<le> 1
   \<and> length (paises_unidos paises (casos_totales_por_pais datos)) = length paises"
proof
  show "length (filter (\<lambda>fila. fst fila = ADM0_ISO p) (casos_totales_por_pais datos)) \<le> 1"
    by (simp add: filter_clave_map_of [OF casos_totales_por_pais_distinct] split: option.splits)
  show "length (paises_unidos paises (casos_totales_por_pais datos)) = length paises"
    by (simp add: paises_unidos_distinct [OF casos_totales_por_pais_distinct])
qed

lemma length_paises_unidos:
  "length (paises_unidos paises derecha) =
     (\<Sum>p\<leftarrow>paises. max 1 (length (filter (\<lambda>fila. fst fila = ADM0_ISO p) derecha)))"
  by (simp add: paises_unidos_def fillna_def length_merge_left)

lemma paises_unidos_codigo_repetido:
  "map u_casos_totales
     (paises_unidos [\<lparr>ADM0_ISO = ''USA'', geometry = ''g1''\<rparr>]
        [(''USA'', Some 1), (''USA'', Some 2)]) = [1, 2]"
  by (simp add: paises_unidos_def merge_left_def fillna_def)


section \<open>The colour scale (C5)\<close>

lemma scale_YlOrRd_09:
  "scale YlOrRd_09 a b =
     Inr \<lparr>colors = colors YlOrRd_09, index = map (\<lambda>x. a + (b - a) * x) (index YlOrRd_09),
          vmin = a, vmax = b\<rparr>"
  by (simp add: scale_def YlOrRd_09_def)

lemma fold_constante:
  "\<forall>v\<in>set vs. v = c \<Longrightarrow> fold min vs c = c \<and> fold max vs (c::real) = c"
  by (induction vs) simp_all

lemma serie_constante:
  assumes "vs \<noteq> []" and "\<forall>v\<in>set vs. v = (c::real)"
  shows "serie_min vs = c" and "serie_max vs = c"
proof -
  from assms obtain x xs where vs: "vs = x # xs" by (cases vs) auto
  with assms(2) have "x = c" "\<forall>v\<in>set xs. v = c" by simp_all
  then show "serie_min vs = c" and "serie_max vs = c"
    using fold_constante [of xs c] by (simp_all add: serie_min_def serie_max_def vs)
qed

lemma color_escala_degenerada:
  assumes "scale YlOrRd_09 c c = Inr cm"
  shows "rgba_floats_tuple cm c = Inr (hex 255 255 204)"
proof -
  have "cm = \<lparr>colors = colors YlOrRd_09, index = map (\<lambda>x. c + (c - c) * x) (index YlOrRd_09),
      vmin = c, vmax = c\<rparr>"
    using assms unfolding scale_YlOrRd_09 by simp
  then show ?thesis
    by (simp add: rgba_floats_tuple_def YlOrRd_09_def)
qed

lemma colorear_constante:
  "\<forall>u\<in>set us. rgba_floats_tuple cm (u_casos_totales u) = Inr col \<Longrightarrow>
     colorear cm us = Inr (map (\<lambda>u. (u, col)) us)"
  by (induction us) simp_all

text \<open>
  Claim C5. When all joined features have the same value (also when all are 0 because
  no polygon had a match), colouring them raises no error, so no division error, and
  every feature gets the same colour: the first of the palette.
\<close>

theorem escala_degenerada:
  assumes "\<forall>u\<in>set (paises_unidos paises por_pais). u_casos_totales u = c"
  shows "coropleta paises por_pais =
     Inr (map (\<lambda>u. (u, hex 255 255 204)) (paises_unidos paises por_pais))"
proof (cases "paises_unidos paises por_pais = []")
  case True
  then show ?thesis by (simp add: coropleta_def)
next
  case False
  let ?vs = "map u_casos_totales (paises_unidos paises por_pais)"
  from False have ne: "?vs \<noteq> []" by simp
  from assms have todos: "\<forall>v\<in>set ?vs. v = c" by auto
  have mn: "serie_min ?vs = c" and mx: "serie_max ?vs = c"
    using serie_constante [OF ne todos] by simp_all
  obtain cm where cm: "scale YlOrRd_09 c c = Inr cm"
    by (simp add: scale_YlOrRd_09)
  have "\<forall>u\<in>set (paises_unidos paises por_pais).
      rgba_floats_tuple cm (u_casos_totales u) = Inr (hex 255 255 204)"
    using assms color_escala_degenerada [OF cm] by simp
  then have "colorear cm (paises_unidos paises por_pais) =
      Inr (map (\<lambda>u. (u, hex 255 255 204)) (paises_unidos paises por_pais))"
    by (rule colorear_constante)
  with ne show ?thesis
    unfolding coropleta_def Let_def mn mx cm by simp
qed

theorem escala_degenerada_witness:
  "list_all (\<lambda>u. u_casos_totales u = 0) (paises_unidos poligonos_ejemplo [])
   \<and> length (paises_unidos poligonos_ejemplo []) = 3
   \<and> coropleta poligonos_ejemplo [] =
       Inr (map (\<lambda>u. (u, hex 255 255 204)) (paises_unidos poligonos_ejemplo []))"
proof -
  have z: "\<forall>u\<in>set (paises_unidos poligonos_ejemplo []). u_casos_totales u = 0"
    by (simp add: paises_unidos_def merge_left_def fillna_def poligonos_ejemplo_def)
  have "length (paises_unidos poligonos_ejemplo []) = 3"
    by (simp add: paises_unidos_def merge_left_def fillna_def poligonos_ejemplo_def)
  with z escala_degenerada [OF z] show ?thesis
    by (simp add: list_all_iff)
qed

text \<open>The scale at work on the example: the domain is from 0 to 150, the largest value
  gets the last colour, 0 the first, and 50 lies two thirds of the way from the third
  colour to the fourth.\<close>

lemma paises_unidos_ejemplo:
  "map u_casos_totales (paises_unidos poligonos_ejemplo (casos_totales_por_pais tabla_ejemplo)) =
     [150, 50, 0]"
  by (simp add: tabla_ejemplo_por_pais paises_unidos_def merge_left_def fillna_def
      poligonos_ejemplo_def)

lemma coropleta_ejemplo:
  "map_sum id (map snd) (coropleta poligonos_ejemplo (casos_totales_por_pais tabla_ejemplo)) =
     Inr [hex 128 0 38, (254 / 255, 191 / 255, 90 / 255, 1), hex 255 255 204]"
  by (simp add: tabla_ejemplo_por_pais coropleta_def paises_unidos_def merge_left_def fillna_def
      poligonos_ejemplo_def scale_def serie_min_def serie_max_def rgba_floats_tuple_def
      YlOrRd_09_def mezclar_def hex_def upt_conv_Cons)


section \<open>The two variants (C10)\<close>




end
